theory Spec2Isabelle
  imports Main "HOL-Library.Word"
begin

section \<open>The custom-filter dispatcher of tensor\_filter (tensor\_filter\_custom.c)\<close>

text \<open>
  A shallow embedding of \<^verbatim>\<open>src/gst/tensor_filter/tensor_filter_custom.c\<close> and of
  \<^verbatim>\<open>set_inputDim\<close> of the scaler example. Every \<^verbatim>\<open>g_assert\<close> and \<^verbatim>\<open>assert\<close> is
  taken as enabled: a failed assertion aborts the process, which is the value
  \<open>Inl (AssertFailed line)\<close>, where \<open>line\<close> is the line of the assertion in its source
  file. Reading or calling through a null pointer is \<open>Inl (NullDeref line)\<close>.
\<close>

subsection \<open>Tensor descriptors\<close>

text \<open>
  The element types of the spec (section 3). The C enumeration and the table
  \<^verbatim>\<open>tensor_element_size\<close> are declared outside the given sources.
\<close>

datatype tensor_type =
  NNS_INT8 | NNS_UINT8 | NNS_INT16 | NNS_UINT16 | NNS_INT32 | NNS_UINT32
| NNS_INT64 | NNS_UINT64 | NNS_FLOAT32 | NNS_FLOAT64

text \<open>
  \<^verbatim>\<open>size_t\<close> is taken as 64 bits wide: its arithmetic wraps around at \<open>2 ^ 64\<close>.
\<close>

type_synonym size_t = "64 word"

text \<open>
  Modelled from the spec: \<^verbatim>\<open>tensor_element_size\<close>, the table of element widths, is
  missing from the sources; the spec says every element type has "a known byte width",
  which is the width its name carries. Its entries are read as \<^verbatim>\<open>unsigned int\<close>
  (unittest\_sink.cpp, line 1240) and \<^verbatim>\<open>uint32_t\<close> (scaler, line 159).
\<close>

fun tensor_element_size :: "tensor_type \<Rightarrow> 32 word" where
  "tensor_element_size NNS_INT8 = 1"
| "tensor_element_size NNS_UINT8 = 1"
| "tensor_element_size NNS_INT16 = 2"
| "tensor_element_size NNS_UINT16 = 2"
| "tensor_element_size NNS_INT32 = 4"
| "tensor_element_size NNS_UINT32 = 4"
| "tensor_element_size NNS_INT64 = 8"
| "tensor_element_size NNS_UINT64 = 8"
| "tensor_element_size NNS_FLOAT32 = 4"
| "tensor_element_size NNS_FLOAT64 = 8"

text \<open>
  The rank limit: \<^verbatim>\<open>pt_invoke\<close> asserts \<^verbatim>\<open>NNS_TENSOR_RANK_LIMIT == 4\<close> (scaler, line 151).
\<close>

definition NNS_TENSOR_RANK_LIMIT :: nat where
  "NNS_TENSOR_RANK_LIMIT = 4"

text \<open>
  \<^verbatim>\<open>GstTensorInfo\<close> and \<^verbatim>\<open>GstTensorsInfo\<close>, with the fields the sources read and write.
  \<^verbatim>\<open>dimension\<close> is a C array of \<^verbatim>\<open>NNS_TENSOR_RANK_LIMIT\<close> 32-bit unsigned entries and
  \<^verbatim>\<open>info\<close> a C array of descriptors; both are lists here.
\<close>

record GstTensorInfo =
  type :: tensor_type
  dimension :: "32 word list"

record GstTensorsInfo =
  num_tensors :: "32 word"
  info :: "GstTensorInfo list"

text \<open>
  Modelled from the spec: \<^verbatim>\<open>get_tensor_element_count\<close> is missing from the sources; the
  spec says "element\_count = product of all dimension entries". Its result is multiplied
  and compared with a \<^verbatim>\<open>size_t\<close> in \<^verbatim>\<open>custom_invoke\<close> (lines 147-149), so the product is
  taken in \<^verbatim>\<open>size_t\<close>, where it wraps around.
\<close>

fun get_tensor_element_count :: "32 word list \<Rightarrow> size_t" where
  "get_tensor_element_count [] = 1"
| "get_tensor_element_count (d # ds) = ucast d * get_tensor_element_count ds"

subsection \<open>The filter, the capability table and the loader's record\<close>

text \<open>
  \<^verbatim>\<open>GstTensorFilterProperties\<close>, with the fields the sources use. The field \<open>prop\<close> of
  the filter is \<open>props\<close> below.
\<close>

record GstTensorFilterProperties =
  model_file :: string
  custom_properties :: "string option"
  input_meta :: GstTensorsInfo
  output_meta :: GstTensorsInfo

text \<open>
  Pointers to buffers and to the module's private data are addresses; \<open>NULL\<close> is 0.
  What the module can reach through them (its own memory and the buffers) is a value
  of the type parameter \<open>'w\<close>, which every callback takes and returns.
\<close>

type_synonym addr = nat

definition NULL :: addr where
  "NULL = 0"

text \<open>
  \<^verbatim>\<open>NNStreamer_custom_class\<close>: a table of function pointers, each present (\<open>Some\<close>) or
  null (\<open>None\<close>). The signatures are those of the calls in tensor\_filter\_custom.c;
  an out-parameter is a result.
\<close>

record 'w NNStreamer_custom_class =
  initfunc :: "(GstTensorFilterProperties \<Rightarrow> 'w \<Rightarrow> addr \<times> 'w) option"
  exitfunc :: "(addr \<Rightarrow> GstTensorFilterProperties \<Rightarrow> 'w \<Rightarrow> 'w) option"
  getInputDim ::
    "(addr \<Rightarrow> GstTensorFilterProperties \<Rightarrow> GstTensorsInfo \<Rightarrow> 'w
      \<Rightarrow> int \<times> GstTensorsInfo \<times> 'w) option"
  getOutputDim ::
    "(addr \<Rightarrow> GstTensorFilterProperties \<Rightarrow> GstTensorsInfo \<Rightarrow> 'w
      \<Rightarrow> int \<times> GstTensorsInfo \<times> 'w) option"
  setInputDim ::
    "(addr \<Rightarrow> GstTensorFilterProperties \<Rightarrow> GstTensorsInfo \<Rightarrow> GstTensorsInfo \<Rightarrow> 'w
      \<Rightarrow> int \<times> GstTensorsInfo \<times> 'w) option"
  invoke ::
    "(addr \<Rightarrow> GstTensorFilterProperties \<Rightarrow> addr \<Rightarrow> addr \<Rightarrow> 'w \<Rightarrow> int \<times> 'w) option"
  allocate_invoke ::
    "(addr \<Rightarrow> GstTensorFilterProperties \<Rightarrow> addr \<Rightarrow> 'w \<Rightarrow> addr \<times> size_t \<times> 'w) option"

text \<open>
  \<^verbatim>\<open>struct _internal_data\<close>. \<open>handle\<close> is what \<^verbatim>\<open>dlopen\<close> returned (the path stands
  for the handle, \<open>None\<close> for a null handle) and \<open>methods\<close> the pointer to the table.
  The back pointer \<^verbatim>\<open>parent\<close> is written once and never read in this file; it is left
  out.
\<close>

record 'w internal_data =
  handle :: "string option"
  methods :: "'w NNStreamer_custom_class option"
  customFW_private_data :: addr

text \<open>
  What the C functions return besides a value: the calls into the allocator, the
  dynamic loader and the module, in order.
\<close>

datatype event =
  G_new0 | G_free | Dlopen string | Dlclose string
| Call_initfunc | Call_exitfunc | Call_getInputDim | Call_getOutputDim
| Call_setInputDim | Call_invoke | Call_allocate_invoke

text \<open>
  The state the functions of the file work on: the two fields of \<^verbatim>\<open>GstTensorFilter\<close>
  they use (\<^verbatim>\<open>prop\<close> and \<^verbatim>\<open>privateData\<close>), the field \<^verbatim>\<open>allocate_in_invoke\<close> of the global
  \<^verbatim>\<open>NNS_support_custom\<close>, the module's memory, and the calls made so far. Every caller
  passes \<^verbatim>\<open>&filter->privateData\<close> as \<^verbatim>\<open>private_data\<close>, so \<^verbatim>\<open>*private_data\<close> is the field
  \<open>privateData\<close>; the assertion of line 66 and the second conjuncts of those of lines
  133, 168, 190 and 212 say so and hold by this identification.
\<close>

record 'w state =
  props :: GstTensorFilterProperties
  privateData :: "'w internal_data option"
  allocate_in_invoke :: bool
  world :: 'w
  trace :: "event list"

datatype failure = AssertFailed nat | NullDeref nat

subsection \<open>The dynamic loader\<close>

text \<open>
  A library is its symbol table: a symbol is undefined (\<open>None\<close>) or names a variable,
  here of type \<^verbatim>\<open>NNStreamer_custom_class *\<close>, whose value is a null pointer or a table.
  \<open>dl\<close> maps a path to the library \<^verbatim>\<open>dlopen\<close> finds there, if any.
\<close>

type_synonym 'w library = "string \<Rightarrow> 'w NNStreamer_custom_class option option"
type_synonym 'w dl = "string \<Rightarrow> 'w library option"

text \<open>
  \<^verbatim>\<open>dlsym\<close> followed by \<^verbatim>\<open>dlerror\<close> (lines 77-80): the address of the symbol, null when
  it is undefined, and the error message, which is set exactly when the lookup failed.
  In \<^verbatim>\<open>custom_loadlib\<close> the address is read through at line 79, before the message is
  looked at in line 81.
\<close>

definition dlsym :: "'w library \<Rightarrow> string
    \<Rightarrow> 'w NNStreamer_custom_class option option \<times> string option" where
  "dlsym lib name =
     (lib name, if Option.is_none (lib name) then Some ''undefined symbol'' else None)"

subsection \<open>custom\_loadlib, custom\_open, custom\_close\<close>

definition custom_loadlib :: "'w dl \<Rightarrow> 'w state \<Rightarrow> failure + (int \<times> 'w state)" where
  "custom_loadlib dl s =
    (if \<not> Option.is_none (privateData s) then Inr (1, s)
     else
       let ptr = \<lparr>handle = None, methods = None, customFW_private_data = NULL\<rparr>;
           s1 = s\<lparr>privateData := Some ptr, trace := trace s @ [G_new0]\<rparr>
       in (case dl (model_file (props s1)) of
             None \<Rightarrow>
               Inr (- 1, s1\<lparr>privateData := None, trace := trace s1 @ [G_free]\<rparr>)
           | Some lib \<Rightarrow>
                 let ptr1 = ptr\<lparr>handle := Some (model_file (props s1))\<rparr>;
                     s2 = s1\<lparr>privateData := Some ptr1,
                             trace := trace s1 @ [Dlopen (model_file (props s1))]\<rparr>
                 in (case dlsym lib ''NNStreamer_custom'' of
                       (None, dlsym_error) \<Rightarrow> Inl (NullDeref 79)
                     | (Some mp, dlsym_error) \<Rightarrow>
                         let ptr2 = ptr1\<lparr>methods := mp\<rparr> in
                         if \<not> Option.is_none dlsym_error then
                           Inr (- 1, s2\<lparr>privateData := None,
                                        trace := trace s2 @
                                          [Dlclose (model_file (props s1)), G_free]\<rparr>)
                         else
                           (case methods ptr2 of
                              None \<Rightarrow> Inl (NullDeref 89)
                            | Some m \<Rightarrow>
                                (case initfunc m of
                                   None \<Rightarrow> Inl (AssertFailed 89)
                                 | Some ini \<Rightarrow>
                                     let (pd, w') = ini (props s2) (world s2);
                                         ptr3 = ptr2\<lparr>customFW_private_data := pd\<rparr>;
                                         s3 = s2\<lparr>privateData := Some ptr3, world := w',
                                                 trace := trace s2 @ [Call_initfunc]\<rparr>
                                     in if \<not> (Option.is_none (getInputDim m) \<noteq>
                                                Option.is_none (setInputDim m) \<and>
                                              Option.is_none (getOutputDim m) \<noteq>
                                                Option.is_none (setInputDim m))
                                        then Inl (AssertFailed 94)
                                        else Inr (0, s3))))))"

definition custom_open :: "'w dl \<Rightarrow> 'w state \<Rightarrow> failure + 'w state" where
  "custom_open dl s =
    (case custom_loadlib dl s of
       Inl e \<Rightarrow> Inl e
     | Inr (retval, s1) \<Rightarrow>
         if retval \<noteq> 0 then Inl (AssertFailed 109)
         else
           (case privateData s1 of
              None \<Rightarrow> Inl (NullDeref 112)
            | Some ptr \<Rightarrow>
                (case methods ptr of
                   None \<Rightarrow> Inl (NullDeref 112)
                 | Some m \<Rightarrow>
                     if \<not> (Option.is_none (invoke m) \<noteq> Option.is_none (allocate_invoke m))
                     then Inl (AssertFailed 112)
                     else if \<not> Option.is_none (allocate_invoke m)
                       then Inr (s1\<lparr>allocate_in_invoke := True\<rparr>)
                       else Inr s1)))"

definition custom_close :: "'w state \<Rightarrow> failure + 'w state" where
  "custom_close s =
    (case privateData s of
       None \<Rightarrow> Inl (NullDeref 229)
     | Some ptr \<Rightarrow>
         (case methods ptr of
            None \<Rightarrow> Inl (NullDeref 229)
          | Some m \<Rightarrow>
              (case exitfunc m of
                 None \<Rightarrow> Inl (NullDeref 229)
               | Some ex \<Rightarrow>
                   let s1 = s\<lparr>world := ex (customFW_private_data ptr) (props s) (world s),
                              privateData := None,
                              trace := trace s @ [Call_exitfunc, G_free]\<rparr>
                   in if \<not> Option.is_none (privateData s1) then Inl (AssertFailed 232)
                      else Inr s1)))"

subsection \<open>The dispatch callbacks\<close>

text \<open>
  \<^verbatim>\<open>custom_invoke\<close> returns the output pointer, or \<open>NULL\<close>. The size the module
  reports through \<^verbatim>\<open>&size\<close> is a \<^verbatim>\<open>size_t\<close>, and so is the product it is compared
  with at lines 147-149: the element count times the element width, converted from
  \<^verbatim>\<open>unsigned int\<close>.
\<close>

definition custom_invoke ::
    "'w dl \<Rightarrow> 'w state \<Rightarrow> addr \<Rightarrow> addr \<Rightarrow> failure + (addr \<times> 'w state)" where
  "custom_invoke dl s inptr outptr =
    (case custom_loadlib dl s of
       Inl e \<Rightarrow> Inl e
     | Inr (retval, s1) \<Rightarrow>
         if retval \<noteq> 1 then Inl (AssertFailed 132)
         else
           (case privateData s1 of
              None \<Rightarrow> Inl (AssertFailed 133)
            | Some ptr \<Rightarrow>
                (case methods ptr of
                   None \<Rightarrow> Inl (NullDeref 136)
                 | Some m \<Rightarrow>
                     (case invoke m of
                        Some f \<Rightarrow>
                          let (retval', w') =
                                f (customFW_private_data ptr) (props s1) inptr outptr (world s1);
                              s2 = s1\<lparr>world := w', trace := trace s1 @ [Call_invoke]\<rparr>
                          in if retval' = 0 then Inr (outptr, s2) else Inr (NULL, s2)
                      | None \<Rightarrow>
                          (case allocate_invoke m of
                             Some g \<Rightarrow>
                               let (retptr, size', w') =
                                     g (customFW_private_data ptr) (props s1) inptr (world s1);
                                   s2 = s1\<lparr>world := w',
                                           trace := trace s1 @ [Call_allocate_invoke]\<rparr>
                               in if \<not> (size' =
                                        get_tensor_element_count
                                          (dimension (info (output_meta (props s1)) ! 0)) *
                                        ucast
                                          (tensor_element_size
                                            (type (info (output_meta (props s1)) ! 0))))
                                  then Inl (AssertFailed 147)
                                  else Inr (retptr, s2)
                           | None \<Rightarrow> Inr (NULL, s1))))))"

definition custom_getInputDim ::
    "'w dl \<Rightarrow> 'w state \<Rightarrow> GstTensorsInfo \<Rightarrow> failure + (int \<times> GstTensorsInfo \<times> 'w state)" where
  "custom_getInputDim dl s info' =
    (case custom_loadlib dl s of
       Inl e \<Rightarrow> Inl e
     | Inr (retval, s1) \<Rightarrow>
         if retval \<noteq> 1 then Inl (AssertFailed 166)
         else
           (case privateData s1 of
              None \<Rightarrow> Inl (AssertFailed 168)
            | Some ptr \<Rightarrow>
                (case methods ptr of
                   None \<Rightarrow> Inl (NullDeref 170)
                 | Some m \<Rightarrow>
                     (case getInputDim m of
                        None \<Rightarrow> Inr (- 1, info', s1)
                      | Some g \<Rightarrow>
                          let (r, info'', w') =
                                g (customFW_private_data ptr) (props s1) info' (world s1)
                          in Inr (r, info'',
                                  s1\<lparr>world := w', trace := trace s1 @ [Call_getInputDim]\<rparr>)))))"

definition custom_getOutputDim ::
    "'w dl \<Rightarrow> 'w state \<Rightarrow> GstTensorsInfo \<Rightarrow> failure + (int \<times> GstTensorsInfo \<times> 'w state)" where
  "custom_getOutputDim dl s info' =
    (case custom_loadlib dl s of
       Inl e \<Rightarrow> Inl e
     | Inr (retval, s1) \<Rightarrow>
         if retval \<noteq> 1 then Inl (AssertFailed 188)
         else
           (case privateData s1 of
              None \<Rightarrow> Inl (AssertFailed 190)
            | Some ptr \<Rightarrow>
                (case methods ptr of
                   None \<Rightarrow> Inl (NullDeref 192)
                 | Some m \<Rightarrow>
                     (case getOutputDim m of
                        None \<Rightarrow> Inr (- 1, info', s1)
                      | Some g \<Rightarrow>
                          let (r, info'', w') =
                                g (customFW_private_data ptr) (props s1) info' (world s1)
                          in Inr (r, info'',
                                  s1\<lparr>world := w', trace := trace s1 @ [Call_getOutputDim]\<rparr>)))))"

definition custom_setInputDim ::
    "'w dl \<Rightarrow> 'w state \<Rightarrow> GstTensorsInfo \<Rightarrow> GstTensorsInfo
      \<Rightarrow> failure + (int \<times> GstTensorsInfo \<times> 'w state)" where
  "custom_setInputDim dl s in_info out_info =
    (case custom_loadlib dl s of
       Inl e \<Rightarrow> Inl e
     | Inr (retval, s1) \<Rightarrow>
         if retval \<noteq> 1 then Inl (AssertFailed 210)
         else
           (case privateData s1 of
              None \<Rightarrow> Inl (AssertFailed 212)
            | Some ptr \<Rightarrow>
                (case methods ptr of
                   None \<Rightarrow> Inl (NullDeref 214)
                 | Some m \<Rightarrow>
                     (case setInputDim m of
                        None \<Rightarrow> Inr (- 1, out_info, s1)
                      | Some g \<Rightarrow>
                          let (r, out_info', w') =
                                g (customFW_private_data ptr) (props s1) in_info out_info
                                  (world s1)
                          in Inr (r, out_info',
                                  s1\<lparr>world := w', trace := trace s1 @ [Call_setInputDim]\<rparr>)))))"

section \<open>The scaler example (nnstreamer\_customfilter\_example\_scaler.c)\<close>

text \<open>
  \<^verbatim>\<open>struct _pt_data\<close>; \<open>property\<close> is a null pointer or a string, and \<open>pt_id\<close> is the
  field \<^verbatim>\<open>id\<close>.
\<close>

record pt_data =
  pt_id :: "32 word"
  property :: "string option"
  new_y :: "32 word"
  new_x :: "32 word"

text \<open>
  The assignment \<^verbatim>\<open>out_info->info[0].dimension[i] = v\<close> and the loop of lines 121-122.
\<close>

definition set_info0_dimension :: "GstTensorsInfo \<Rightarrow> nat \<Rightarrow> 32 word \<Rightarrow> GstTensorsInfo" where
  "set_info0_dimension ti i v =
     ti\<lparr>info := (info ti)[0 := (info ti ! 0)\<lparr>dimension := (dimension (info ti ! 0))[i := v]\<rparr>]\<rparr>"

function copy_dimension :: "nat \<Rightarrow> GstTensorsInfo \<Rightarrow> GstTensorsInfo \<Rightarrow> GstTensorsInfo" where
  "copy_dimension i in_info out_info =
     (if i < NNS_TENSOR_RANK_LIMIT
      then copy_dimension (i + 1) in_info
             (set_info0_dimension out_info i (dimension (info in_info ! 0) ! i))
      else out_info)"
  by pat_completeness auto
termination
  by (relation "measure (\<lambda>(i, in_info, out_info). NNS_TENSOR_RANK_LIMIT - i)") auto

declare copy_dimension.simps [simp del]

text \<open>
  \<^verbatim>\<open>set_inputDim\<close>. The three pointer arguments are \<open>None\<close> when null; \<^verbatim>\<open>prop\<close> is not
  read. The result is the return value and what \<^verbatim>\<open>out_info\<close> points to afterwards.
\<close>

definition set_inputDim ::
    "pt_data option \<Rightarrow> GstTensorFilterProperties \<Rightarrow> GstTensorsInfo option
      \<Rightarrow> GstTensorsInfo option \<Rightarrow> failure + (int \<times> GstTensorsInfo)" where
  "set_inputDim private_data prop' in_info out_info =
    (case private_data of
       None \<Rightarrow> Inl (AssertFailed 115)
     | Some data \<Rightarrow>
         (case in_info of
            None \<Rightarrow> Inl (AssertFailed 116)
          | Some inp \<Rightarrow>
              (case out_info of
                 None \<Rightarrow> Inl (AssertFailed 117)
               | Some out0 \<Rightarrow>
                   let out1 = out0\<lparr>num_tensors := 1\<rparr>;
                       out2 = copy_dimension 0 inp out1;
                       out3 = (if new_x data > 0
                               then set_info0_dimension out2 1 (new_x data) else out2);
                       out4 = (if new_y data > 0
                               then set_info0_dimension out3 2 (new_y data) else out3);
                       out5 = out4\<lparr>info := (info out4)[0 := (info out4 ! 0)\<lparr>type := type (info inp ! 0)\<rparr>]\<rparr>
                   in Inr (0, out5))))"

section \<open>The spec's words, and example modules\<close>

text \<open>
  The shape-discovery invariant in the words of the spec (section 3, invariant 2), to
  compare with the assertion of lines 94-95: exactly one of "\<^verbatim>\<open>get_input_shape\<close> present
  together with \<^verbatim>\<open>get_output_shape\<close> present" and "\<^verbatim>\<open>set_shapes\<close> present" holds.
\<close>

definition spec_shape_exclusive :: "'w NNStreamer_custom_class \<Rightarrow> bool" where
  "spec_shape_exclusive m =
     ((\<not> Option.is_none (getInputDim m) \<and> \<not> Option.is_none (getOutputDim m)) \<noteq>
      (\<not> Option.is_none (setInputDim m)))"

text \<open>
  The byte size of a tensor in the words of the spec (section 3, "Derived"): the
  product of all dimension entries times the width of the element type, as a natural
  number.
\<close>

definition spec_byte_size :: "GstTensorInfo \<Rightarrow> nat" where
  "spec_byte_size ti =
     prod_list (map unat (dimension ti)) * unat (tensor_element_size (type ti))"

text \<open>Running one call after another: a failure ends the run.\<close>

definition and_then :: "failure + 'a \<Rightarrow> ('a \<Rightarrow> failure + 'b) \<Rightarrow> failure + 'b" where
  "and_then r f = (case r of Inl e \<Rightarrow> Inl e | Inr x \<Rightarrow> f x)"

text \<open>The host sets another \<^verbatim>\<open>model\<close> property on a closed filter.\<close>

definition set_model_file :: "string \<Rightarrow> 'w state \<Rightarrow> 'w state" where
  "set_model_file path s = s\<lparr>props := (props s)\<lparr>model_file := path\<rparr>\<rparr>"

text \<open>
  Example modules, as concrete inputs. Their memory is the number of private states
  that \<open>ex_init\<close> has created and \<open>ex_exit\<close> has not released.
\<close>

definition ex_tensors :: GstTensorsInfo where
  "ex_tensors = \<lparr>num_tensors = 1, info = [\<lparr>type = NNS_UINT8, dimension = [3, 640, 480, 1]\<rparr>]\<rparr>"

definition ex_init :: "GstTensorFilterProperties \<Rightarrow> nat \<Rightarrow> addr \<times> nat" where
  "ex_init p w = (4096, w + 1)"

definition ex_exit :: "addr \<Rightarrow> GstTensorFilterProperties \<Rightarrow> nat \<Rightarrow> nat" where
  "ex_exit pd p w = w - 1"

definition ex_getDim ::
    "addr \<Rightarrow> GstTensorFilterProperties \<Rightarrow> GstTensorsInfo \<Rightarrow> nat
      \<Rightarrow> int \<times> GstTensorsInfo \<times> nat" where
  "ex_getDim pd p ti w = (0, ex_tensors, w)"

definition ex_setDim ::
    "addr \<Rightarrow> GstTensorFilterProperties \<Rightarrow> GstTensorsInfo \<Rightarrow> GstTensorsInfo \<Rightarrow> nat
      \<Rightarrow> int \<times> GstTensorsInfo \<times> nat" where
  "ex_setDim pd p ti to w = (0, ti, w)"

text \<open>An \<^verbatim>\<open>invoke\<close> that fails (status -1) on a null input and succeeds otherwise.\<close>

definition ex_invoke ::
    "addr \<Rightarrow> GstTensorFilterProperties \<Rightarrow> addr \<Rightarrow> addr \<Rightarrow> nat \<Rightarrow> int \<times> nat" where
  "ex_invoke pd p inptr outptr w = (if inptr = NULL then (- 1, w) else (0, w))"

text \<open>
  An \<^verbatim>\<open>allocate_invoke\<close> that returns a buffer at 8192 and reports 3 * 640 * 480 bytes
  for it, or one byte less when the input pointer is 1.
\<close>

definition ex_allocate_invoke ::
    "addr \<Rightarrow> GstTensorFilterProperties \<Rightarrow> addr \<Rightarrow> nat \<Rightarrow> addr \<times> size_t \<times> nat" where
  "ex_allocate_invoke pd p inptr w = (8192, if inptr = 1 then 921599 else 921600, w)"

text \<open>
  An \<^verbatim>\<open>allocate_invoke\<close> that reports 0 bytes, and an output descriptor of
  2147483648 * 1073741824 elements of 8 bytes, which are \<open>2 ^ 64\<close> bytes.
\<close>

definition ex_allocate_invoke_empty ::
    "addr \<Rightarrow> GstTensorFilterProperties \<Rightarrow> addr \<Rightarrow> nat \<Rightarrow> addr \<times> size_t \<times> nat" where
  "ex_allocate_invoke_empty pd p inptr w = (8192, 0, w)"

definition ex_huge_tensors :: GstTensorsInfo where
  "ex_huge_tensors =
     \<lparr>num_tensors = 1,
      info = [\<lparr>type = NNS_FLOAT64, dimension = [2147483648, 1073741824, 1, 1]\<rparr>]\<rparr>"

definition mod_static :: "nat NNStreamer_custom_class" where
  "mod_static = \<lparr>initfunc = Some ex_init, exitfunc = Some ex_exit,
     getInputDim = Some ex_getDim, getOutputDim = Some ex_getDim, setInputDim = None,
     invoke = Some ex_invoke, allocate_invoke = None\<rparr>"

text \<open>The entries of the scaler's table \<^verbatim>\<open>NNStreamer_custom_body\<close> (lines 204-209).\<close>

definition mod_dynamic :: "nat NNStreamer_custom_class" where
  "mod_dynamic = \<lparr>initfunc = Some ex_init, exitfunc = Some ex_exit,
     getInputDim = None, getOutputDim = None, setInputDim = Some ex_setDim,
     invoke = Some ex_invoke, allocate_invoke = None\<rparr>"

definition mod_alloc :: "nat NNStreamer_custom_class" where
  "mod_alloc = \<lparr>initfunc = Some ex_init, exitfunc = Some ex_exit,
     getInputDim = None, getOutputDim = None, setInputDim = Some ex_setDim,
     invoke = None, allocate_invoke = Some ex_allocate_invoke\<rparr>"

definition mod_alloc_empty :: "nat NNStreamer_custom_class" where
  "mod_alloc_empty = \<lparr>initfunc = Some ex_init, exitfunc = Some ex_exit,
     getInputDim = None, getOutputDim = None, setInputDim = Some ex_setDim,
     invoke = None, allocate_invoke = Some ex_allocate_invoke_empty\<rparr>"

text \<open>\<^verbatim>\<open>setInputDim\<close> together with \<^verbatim>\<open>getInputDim\<close>, and no \<^verbatim>\<open>getOutputDim\<close>.\<close>

definition mod_mixed :: "nat NNStreamer_custom_class" where
  "mod_mixed = \<lparr>initfunc = Some ex_init, exitfunc = Some ex_exit,
     getInputDim = Some ex_getDim, getOutputDim = None, setInputDim = Some ex_setDim,
     invoke = Some ex_invoke, allocate_invoke = None\<rparr>"

text \<open>No shape callback at all.\<close>

definition mod_noshape :: "nat NNStreamer_custom_class" where
  "mod_noshape = \<lparr>initfunc = Some ex_init, exitfunc = Some ex_exit,
     getInputDim = None, getOutputDim = None, setInputDim = None,
     invoke = Some ex_invoke, allocate_invoke = None\<rparr>"

text \<open>No \<^verbatim>\<open>exitfunc\<close>.\<close>

definition mod_noexit :: "nat NNStreamer_custom_class" where
  "mod_noexit = \<lparr>initfunc = Some ex_init, exitfunc = None,
     getInputDim = None, getOutputDim = None, setInputDim = Some ex_setDim,
     invoke = Some ex_invoke, allocate_invoke = None\<rparr>"

text \<open>A library that exports a table, and one that exports no symbol.\<close>

definition lib_of :: "'w NNStreamer_custom_class \<Rightarrow> 'w library" where
  "lib_of m name = (if name = ''NNStreamer_custom'' then Some (Some m) else None)"

definition lib_nosym :: "nat library" where
  "lib_nosym name = None"

definition ex_dl :: "nat dl" where
  "ex_dl path =
     (if path = ''static.so'' then Some (lib_of mod_static)
      else if path = ''dynamic.so'' then Some (lib_of mod_dynamic)
      else if path = ''alloc.so'' then Some (lib_of mod_alloc)
      else if path = ''allocempty.so'' then Some (lib_of mod_alloc_empty)
      else if path = ''mixed.so'' then Some (lib_of mod_mixed)
      else if path = ''noshape.so'' then Some (lib_of mod_noshape)
      else if path = ''noexit.so'' then Some (lib_of mod_noexit)
      else if path = ''nosym.so'' then Some lib_nosym
      else None)"

text \<open>
  A filter that has not been opened, in a process that has opened none: the flag has
  its initial value \<^verbatim>\<open>FALSE\<close> (line 238).
\<close>

definition fresh :: "string \<Rightarrow> nat state" where
  "fresh path =
     \<lparr>props = \<lparr>model_file = path, custom_properties = None,
                input_meta = ex_tensors, output_meta = ex_tensors\<rparr>,
      privateData = None, allocate_in_invoke = False, world = 0, trace = []\<rparr>"

text \<open>The record an open of \<open>path\<close> leaves in \<open>privateData\<close> when it resolves \<open>m\<close>.\<close>

definition ex_loaded :: "string \<Rightarrow> nat NNStreamer_custom_class \<Rightarrow> nat internal_data" where
  "ex_loaded path m = \<lparr>handle = Some path, methods = Some m, customFW_private_data = 4096\<rparr>"

text \<open>The host stores a negotiated output descriptor in the filter's properties.\<close>

definition set_output_meta :: "GstTensorsInfo \<Rightarrow> 'w state \<Rightarrow> 'w state" where
  "set_output_meta ti s = s\<lparr>props := (props s)\<lparr>output_meta := ti\<rparr>\<rparr>"

text \<open>The filter \<open>fresh path\<close> after a successful open that resolved \<open>m\<close>.\<close>

definition ex_opened :: "string \<Rightarrow> nat NNStreamer_custom_class \<Rightarrow> nat state" where
  "ex_opened path m =
     (fresh path)\<lparr>privateData := Some (ex_loaded path m),
                   allocate_in_invoke := \<not> Option.is_none (allocate_invoke m),
                   world := 1,
                   trace := [G_new0, Dlopen path, Call_initfunc]\<rparr>"

text \<open>
  The scaler's private data for \<^verbatim>\<open>custom=320x240\<close>, a zeroed output descriptor, and
  the properties of a filter set up so.
\<close>

definition ex_pt_data :: pt_data where
  "ex_pt_data = \<lparr>pt_id = 0, property = Some ''320x240'', new_y = 240, new_x = 320\<rparr>"

definition ex_out_info :: GstTensorsInfo where
  "ex_out_info = \<lparr>num_tensors = 0, info = [\<lparr>type = NNS_INT8, dimension = [0, 0, 0, 0]\<rparr>]\<rparr>"

definition ex_props :: GstTensorFilterProperties where
  "ex_props = \<lparr>model_file = ''scaler.so'', custom_properties = Some ''320x240'',
     input_meta = ex_tensors, output_meta = ex_out_info\<rparr>"

section \<open>Properties of the loader\<close>

lemmas ex_defs = ex_dl_def fresh_def lib_of_def lib_nosym_def mod_static_def mod_dynamic_def
  mod_alloc_def mod_mixed_def mod_noexit_def mod_noshape_def ex_init_def ex_exit_def
  ex_getDim_def ex_setDim_def ex_invoke_def ex_allocate_invoke_def ex_tensors_def
  set_model_file_def and_then_def NULL_def dlsym_def ex_loaded_def ex_opened_def
  mod_alloc_empty_def ex_allocate_invoke_empty_def ex_huge_tensors_def set_output_meta_def

text \<open>\<^verbatim>\<open>dlerror\<close> reports an error exactly when \<^verbatim>\<open>dlsym\<close> returned a null pointer.\<close>

lemma dlsym_error_iff_null:
  "(snd (dlsym lib name) \<noteq> None) = (fst (dlsym lib name) = None)"
  by (simp add: dlsym_def Option.is_none_def)

text \<open>On a filter that holds a record, \<^verbatim>\<open>custom_loadlib\<close> returns 1 and does nothing.\<close>

lemma custom_loadlib_skip:
  "privateData s = Some ptr \<Longrightarrow> custom_loadlib dl s = Inr (1, s)"
  by (simp add: custom_loadlib_def)

text \<open>
  What \<^verbatim>\<open>custom_loadlib\<close> does on a filter without a record when the library loads,
  the symbol resolves to a table and the table has \<^verbatim>\<open>initfunc\<close>.
\<close>

lemma custom_loadlib_resolved:
  assumes "privateData s = None"
    and "dl (model_file (props s)) = Some lib"
    and "lib ''NNStreamer_custom'' = Some (Some m)"
    and "initfunc m = Some ini"
  shows "custom_loadlib dl s =
    (if Option.is_none (getInputDim m) \<noteq> Option.is_none (setInputDim m) \<and>
        Option.is_none (getOutputDim m) \<noteq> Option.is_none (setInputDim m)
     then Inr (0, s\<lparr>privateData :=
                      Some \<lparr>handle = Some (model_file (props s)), methods = Some m,
                            customFW_private_data = fst (ini (props s) (world s))\<rparr>,
                    world := snd (ini (props s) (world s)),
                    trace := trace s @ [G_new0, Dlopen (model_file (props s)), Call_initfunc]\<rparr>)
     else Inl (AssertFailed 94))"
  using assms by (simp add: custom_loadlib_def dlsym_def Let_def split_beta)

lemma custom_open_opened:
  assumes "custom_open dl s0 = Inr s"
  shows "privateData s \<noteq> None"
  using assms
  by (auto simp: custom_open_def split: sum.splits prod.splits if_splits option.splits)

text \<open>
  Claim C1, as amended. When the library loads and its symbol resolves to a table with
  \<^verbatim>\<open>initfunc\<close>: \<^verbatim>\<open>custom_open\<close> succeeds only if the table has both \<^verbatim>\<open>getInputDim\<close> and
  \<^verbatim>\<open>getOutputDim\<close> and no \<^verbatim>\<open>setInputDim\<close>, or has \<^verbatim>\<open>setInputDim\<close> and neither of the
  other two; every other table fails the assertion of line 94, among them a table with
  \<^verbatim>\<open>setInputDim\<close> and only one of the two getters; and a table that passes satisfies the
  exclusive-or of the spec.
\<close>

theorem C1_open_shape_discovery:
  assumes "privateData s = None"
    and "dl (model_file (props s)) = Some lib"
    and "lib ''NNStreamer_custom'' = Some (Some m)"
    and "initfunc m = Some ini"
  shows "((\<exists>s'. custom_open dl s = Inr s') \<longrightarrow>
            (getInputDim m \<noteq> None \<and> getOutputDim m \<noteq> None \<and> setInputDim m = None) \<or>
            (getInputDim m = None \<and> getOutputDim m = None \<and> setInputDim m \<noteq> None)) \<and>
         (\<not> ((getInputDim m \<noteq> None \<and> getOutputDim m \<noteq> None \<and> setInputDim m = None) \<or>
              (getInputDim m = None \<and> getOutputDim m = None \<and> setInputDim m \<noteq> None)) \<longrightarrow>
            custom_open dl s = Inl (AssertFailed 94)) \<and>
         ((getInputDim m \<noteq> None \<and> getOutputDim m \<noteq> None \<and> setInputDim m = None) \<or>
          (getInputDim m = None \<and> getOutputDim m = None \<and> setInputDim m \<noteq> None) \<longrightarrow>
            spec_shape_exclusive m)"
proof -
  let ?ok = "Option.is_none (getInputDim m) \<noteq> Option.is_none (setInputDim m) \<and>
        Option.is_none (getOutputDim m) \<noteq> Option.is_none (setInputDim m)"
  let ?modes = "(getInputDim m \<noteq> None \<and> getOutputDim m \<noteq> None \<and> setInputDim m = None) \<or>
            (getInputDim m = None \<and> getOutputDim m = None \<and> setInputDim m \<noteq> None)"
  have eq: "?ok = ?modes"
    by (auto simp: Option.is_none_def)
  have fail: "custom_open dl s = Inl (AssertFailed 94)" if "\<not> ?ok"
    using that assms custom_loadlib_resolved [of s dl lib m ini] by (simp add: custom_open_def)
  have spec: "spec_shape_exclusive m" if "?modes"
    using that by (auto simp: spec_shape_exclusive_def Option.is_none_def)
  show ?thesis
    using eq fail spec by auto
qed

theorem C1_open_shape_discovery_witness:
  "(\<exists>s'. custom_open ex_dl (fresh ''static.so'') = Inr s') \<and> spec_shape_exclusive mod_static \<and>
   custom_open ex_dl (fresh ''noshape.so'') = Inl (AssertFailed 94)"
proof -
  have a: "spec_shape_exclusive mod_static"
    using C1_open_shape_discovery
      [of "fresh ''static.so''" ex_dl "lib_of mod_static" mod_static ex_init]
    by (simp add: ex_defs)
  have b: "custom_open ex_dl (fresh ''noshape.so'') = Inl (AssertFailed 94)"
    using C1_open_shape_discovery
      [of "fresh ''noshape.so''" ex_dl "lib_of mod_noshape" mod_noshape ex_init]
    by (simp add: ex_defs)
  have c: "\<exists>s'. custom_open ex_dl (fresh ''static.so'') = Inr s'"
    by (simp add: custom_open_def custom_loadlib_def ex_defs Let_def)
  show ?thesis using a b c by simp
qed

text \<open>
  Claim C1 as stated fails: the table \<open>mod_mixed\<close> has \<^verbatim>\<open>setInputDim\<close> and only
  \<^verbatim>\<open>getInputDim\<close> of the two getters, so it satisfies the exclusive-or of the spec, and
  \<^verbatim>\<open>custom_open\<close> rejects it at line 94.
\<close>

theorem C1_mixed_table_rejected:
  "spec_shape_exclusive mod_mixed \<and> \<not> Option.is_none (setInputDim mod_mixed) \<and>
   \<not> Option.is_none (getInputDim mod_mixed) \<and> Option.is_none (getOutputDim mod_mixed) \<and>
   custom_open ex_dl (fresh ''mixed.so'') = Inl (AssertFailed 94)"
  by (simp add: spec_shape_exclusive_def custom_open_def custom_loadlib_def ex_defs Let_def)

text \<open>
  Claim C3, as amended. On a filter that a successful \<^verbatim>\<open>custom_open\<close> has opened, the
  loader returns 1 and leaves everything as it is: no library is loaded again,
  \<^verbatim>\<open>initfunc\<close> is not called again and the record with the module's private data stays.
  A second \<^verbatim>\<open>custom_open\<close> does not return: it fails the assertion of line 109 ("This
  must be called only once").
\<close>

theorem C3_reopen_refused_without_reload:
  assumes "custom_open dl s0 = Inr s"
  shows "custom_loadlib dl s = Inr (1, s) \<and> custom_open dl s = Inl (AssertFailed 109)"
proof -
  from custom_open_opened [OF assms] obtain ptr where "privateData s = Some ptr"
    by auto
  then have "custom_loadlib dl s = Inr (1, s)"
    by (rule custom_loadlib_skip)
  then show ?thesis
    by (simp add: custom_open_def)
qed

theorem C3_reopen_refused_without_reload_witness:
  "custom_loadlib ex_dl (ex_opened ''dynamic.so'' mod_dynamic) =
     Inr (1, ex_opened ''dynamic.so'' mod_dynamic) \<and>
   custom_open ex_dl (ex_opened ''dynamic.so'' mod_dynamic) = Inl (AssertFailed 109)"
proof -
  have "custom_open ex_dl (fresh ''dynamic.so'') = Inr (ex_opened ''dynamic.so'' mod_dynamic)"
    by (simp add: custom_open_def custom_loadlib_def ex_defs Let_def)
  then show ?thesis
    by (rule C3_reopen_refused_without_reload)
qed

text \<open>
  Claim C3 as stated fails: the first \<^verbatim>\<open>custom_open\<close> of the example succeeds and the
  second one on the same filter does not return success.
\<close>

theorem C3_second_open_aborts:
  "\<not> isl (custom_open ex_dl (fresh ''dynamic.so'')) \<and>
   and_then (custom_open ex_dl (fresh ''dynamic.so'')) (custom_open ex_dl) =
     Inl (AssertFailed 109)"
  by (simp add: custom_open_def custom_loadlib_def ex_defs Let_def)

text \<open>
  The state \<^verbatim>\<open>custom_open\<close> leaves when the table passes the assertions of lines 89 and
  94: the flag \<^verbatim>\<open>allocate_in_invoke\<close> is set when the table has \<^verbatim>\<open>allocate_invoke\<close> and
  is not written otherwise.
\<close>

lemma custom_open_resolved:
  assumes "privateData s = None"
    and "dl (model_file (props s)) = Some lib"
    and "lib ''NNStreamer_custom'' = Some (Some m)"
    and "initfunc m = Some ini"
    and "Option.is_none (getInputDim m) \<noteq> Option.is_none (setInputDim m)"
    and "Option.is_none (getOutputDim m) \<noteq> Option.is_none (setInputDim m)"
  shows "custom_open dl s =
    (if Option.is_none (invoke m) = Option.is_none (allocate_invoke m)
     then Inl (AssertFailed 112)
     else Inr (s\<lparr>privateData :=
                    Some \<lparr>handle = Some (model_file (props s)), methods = Some m,
                          customFW_private_data = fst (ini (props s) (world s))\<rparr>,
                  world := snd (ini (props s) (world s)),
                  trace := trace s @ [G_new0, Dlopen (model_file (props s)), Call_initfunc],
                  allocate_in_invoke :=
                    allocate_in_invoke s \<or> \<not> Option.is_none (allocate_invoke m)\<rparr>))"
  using assms custom_loadlib_resolved [of s dl lib m ini]
  by (simp add: custom_open_def)

text \<open>
  The output-ownership check of \<^verbatim>\<open>custom_open\<close> (line 112), for a table that passes the
  earlier assertions: the call fails the assertion when \<^verbatim>\<open>invoke\<close> and
  \<^verbatim>\<open>allocate_invoke\<close> are both present or both absent; otherwise it succeeds, and the
  flag \<^verbatim>\<open>allocate_in_invoke\<close> is true afterwards exactly when it was true before or the
  table has \<^verbatim>\<open>allocate_invoke\<close>.
\<close>

theorem open_ownership_check:
  assumes "privateData s = None"
    and "dl (model_file (props s)) = Some lib"
    and "lib ''NNStreamer_custom'' = Some (Some m)"
    and "initfunc m = Some ini"
    and "Option.is_none (getInputDim m) \<noteq> Option.is_none (setInputDim m)"
    and "Option.is_none (getOutputDim m) \<noteq> Option.is_none (setInputDim m)"
  shows "(if (invoke m = None) = (allocate_invoke m = None)
          then custom_open dl s = Inl (AssertFailed 112)
          else \<exists>s'. custom_open dl s = Inr s' \<and>
                 allocate_in_invoke s' = (allocate_in_invoke s \<or> allocate_invoke m \<noteq> None))"
  using assms custom_open_resolved [of s dl lib m ini]
  by (auto simp: Option.is_none_def)

theorem open_ownership_check_witness:
  "\<exists>s'. custom_open ex_dl (fresh ''alloc.so'') = Inr s' \<and> allocate_in_invoke s' = True"
  using open_ownership_check [of "fresh ''alloc.so''" ex_dl "lib_of mod_alloc" mod_alloc ex_init]
  by (simp add: ex_defs)

text \<open>
  Claim C2 fails on the code. The filter opens a module with \<^verbatim>\<open>allocate_invoke\<close>, is
  closed, and opens a module with \<^verbatim>\<open>invoke\<close> only: the second open succeeds and the
  flag \<^verbatim>\<open>allocate_in_invoke\<close> of the global \<^verbatim>\<open>NNS_support_custom\<close> is still true, although
  the table now loaded has no \<^verbatim>\<open>allocate_invoke\<close>. Nothing in the file writes
  \<^verbatim>\<open>FALSE\<close> to the flag.
\<close>

theorem C2_allocate_in_invoke_stale:
  "and_then (and_then (custom_open ex_dl (fresh ''alloc.so'')) custom_close)
     (\<lambda>s. custom_open ex_dl (set_model_file ''dynamic.so'' s)) =
   Inr ((ex_opened ''dynamic.so'' mod_dynamic)
         \<lparr>allocate_in_invoke := True,
          trace := [G_new0, Dlopen ''alloc.so'', Call_initfunc, Call_exitfunc, G_free,
                    G_new0, Dlopen ''dynamic.so'', Call_initfunc]\<rparr>) \<and>
   Option.is_none (allocate_invoke mod_dynamic) \<and> \<not> Option.is_none (invoke mod_dynamic) \<and>
   \<not> allocate_in_invoke (ex_opened ''dynamic.so'' mod_dynamic)"
  by (simp add: custom_open_def custom_loadlib_def custom_close_def ex_defs Let_def)

text \<open>
  Claim C4 fails on the code. \<^verbatim>\<open>custom_loadlib\<close> asserts \<^verbatim>\<open>initfunc\<close> (line 89) and never
  looks at \<^verbatim>\<open>exitfunc\<close>: a table without \<^verbatim>\<open>exitfunc\<close> is opened, and \<^verbatim>\<open>custom_close\<close> then
  calls through the null pointer (line 229).
\<close>

theorem C4_table_without_exit_accepted:
  "Option.is_none (exitfunc mod_noexit) \<and>
   custom_open ex_dl (fresh ''noexit.so'') = Inr (ex_opened ''noexit.so'' mod_noexit) \<and>
   custom_close (ex_opened ''noexit.so'' mod_noexit) = Inl (NullDeref 229)"
  by (simp add: custom_open_def custom_loadlib_def custom_close_def ex_defs Let_def)

text \<open>
  A library that cannot be opened: the loader returns -1, has freed the record it
  allocated, and leaves the filter as it was.
\<close>

theorem loadlib_unloadable_library:
  assumes "privateData s = None" and "dl (model_file (props s)) = None"
  shows "custom_loadlib dl s = Inr (- 1, s\<lparr>trace := trace s @ [G_new0, G_free]\<rparr>)"
  using assms by (simp add: custom_loadlib_def Let_def)

theorem loadlib_unloadable_library_witness:
  "custom_loadlib ex_dl (fresh ''missing.so'') =
     Inr (- 1, (fresh ''missing.so'')\<lparr>trace := [G_new0, G_free]\<rparr>)"
  using loadlib_unloadable_library [of "fresh ''missing.so''" ex_dl]
  by (simp add: ex_defs)

text \<open>
  A library without the symbol: \<^verbatim>\<open>dlsym\<close> returns a null pointer, which line 79 reads
  through before line 81 looks at \<^verbatim>\<open>dlerror\<close>.
\<close>

lemma custom_loadlib_undefined_symbol:
  assumes "privateData s = None" and "dl (model_file (props s)) = Some lib"
    and "lib ''NNStreamer_custom'' = None"
  shows "custom_loadlib dl s = Inl (NullDeref 79)"
  using assms by (simp add: custom_loadlib_def Let_def dlsym_def)

text \<open>
  Claim C10 fails on the code in the symbol-failure case. For the library
  \<open>lib_nosym\<close>, which loads and does not define \<^verbatim>\<open>NNStreamer_custom\<close>, the loader does not
  return: it reads through the null pointer at line 79, and the clean-up of lines
  82-86 is not reached. (For a path no library is at, it returns -1.)
\<close>

theorem C10_undefined_symbol_null_deref:
  "custom_loadlib ex_dl (fresh ''nosym.so'') = Inl (NullDeref 79) \<and>
   custom_loadlib ex_dl (fresh ''missing.so'') =
     Inr (- 1, (fresh ''missing.so'')\<lparr>trace := [G_new0, G_free]\<rparr>)"
  by (simp add: custom_loadlib_def ex_defs Let_def)

section \<open>Properties of the dispatcher\<close>

text \<open>
  The size \<^verbatim>\<open>custom_invoke\<close> compares with is the byte size of the spec modulo \<open>2 ^ 64\<close>.
\<close>

lemma unat_ucast_size_t:
  "unat (ucast (d :: 32 word) :: size_t) = unat d"
proof -
  have "unat d < 2 ^ 32"
    using unsigned_less [of d] by simp
  then have "unat d < 2 ^ 64"
    by simp
  then show ?thesis
    by (simp add: unsigned_ucast_eq take_bit_nat_eq_self)
qed

lemma unat_get_tensor_element_count:
  "unat (get_tensor_element_count ds) = prod_list (map unat ds) mod 2 ^ 64"
proof (induction ds)
  case Nil
  then show ?case by simp
next
  case (Cons d ds)
  have "unat (ucast d :: size_t) = unat d"
    by (rule unat_ucast_size_t)
  then have "unat (get_tensor_element_count (d # ds)) =
      (unat d * (prod_list (map unat ds) mod 2 ^ 64)) mod 2 ^ 64"
    using Cons.IH by (simp add: unat_word_ariths)
  then show ?case
    by (simp add: mod_mult_right_eq)
qed

lemma unat_byte_size:
  "unat (get_tensor_element_count (dimension ti) * ucast (tensor_element_size (type ti))) =
     spec_byte_size ti mod 2 ^ 64"
proof -
  have "unat (ucast (tensor_element_size (type ti)) :: size_t) =
      unat (tensor_element_size (type ti))"
    by (rule unat_ucast_size_t)
  then have "unat (get_tensor_element_count (dimension ti) *
        ucast (tensor_element_size (type ti))) =
      ((prod_list (map unat (dimension ti)) mod 2 ^ 64) *
        unat (tensor_element_size (type ti))) mod 2 ^ 64"
    by (simp add: unat_word_ariths unat_get_tensor_element_count)
  then show ?thesis
    by (simp add: spec_byte_size_def mod_mult_left_eq)
qed

text \<open>
  Claim C5, as amended. On an open handle whose table has no \<^verbatim>\<open>invoke\<close> and has
  \<^verbatim>\<open>allocate_invoke\<close>, \<^verbatim>\<open>custom_invoke\<close> calls \<^verbatim>\<open>allocate_invoke\<close> and compares the size it
  reports with the byte size of the first output tensor of the filter's properties (the
  product of all its dimension entries times the width of its element type) taken
  modulo \<open>2 ^ 64\<close>, as \<^verbatim>\<open>size_t\<close> arithmetic gives it. When the two are equal it returns
  the module's buffer, and when they differ it fails the assertion of line 147. So
  for every output tensor whose byte size is below \<open>2 ^ 64\<close> the reported size is
  compared with the byte size itself.
\<close>

theorem C5_allocate_invoke_size_check:
  assumes "privateData s = Some ptr"
    and "methods ptr = Some m"
    and "invoke m = None"
    and "allocate_invoke m = Some g"
    and "g (customFW_private_data ptr) (props s) inptr (world s) = (retptr, reported, w')"
  shows "custom_invoke dl s inptr outptr =
           (if unat reported = spec_byte_size (info (output_meta (props s)) ! 0) mod 2 ^ 64
            then Inr (retptr, s\<lparr>world := w', trace := trace s @ [Call_allocate_invoke]\<rparr>)
            else Inl (AssertFailed 147)) \<and>
         (spec_byte_size (info (output_meta (props s)) ! 0) < 2 ^ 64 \<longrightarrow>
            custom_invoke dl s inptr outptr =
              (if unat reported = spec_byte_size (info (output_meta (props s)) ! 0)
               then Inr (retptr, s\<lparr>world := w', trace := trace s @ [Call_allocate_invoke]\<rparr>)
               else Inl (AssertFailed 147)))"
proof -
  let ?ti = "info (output_meta (props s)) ! 0"
  let ?size = "get_tensor_element_count (dimension ?ti) * ucast (tensor_element_size (type ?ti))"
  have code: "custom_invoke dl s inptr outptr =
      (if reported = ?size
       then Inr (retptr, s\<lparr>world := w', trace := trace s @ [Call_allocate_invoke]\<rparr>)
       else Inl (AssertFailed 147))"
    using assms by (simp add: custom_invoke_def custom_loadlib_skip)
  have "(reported = ?size) = (unat reported = unat ?size)"
    by (simp add: word_unat_eq_iff)
  then have eq: "(reported = ?size) = (unat reported = spec_byte_size ?ti mod 2 ^ 64)"
    by (simp only: unat_byte_size)
  show ?thesis
    using code eq by simp
qed

theorem C5_allocate_invoke_size_check_witness:
  "custom_invoke ex_dl (ex_opened ''alloc.so'' mod_alloc) 100 200 =
     Inr (8192, (ex_opened ''alloc.so'' mod_alloc)
                  \<lparr>trace := [G_new0, Dlopen ''alloc.so'', Call_initfunc,
                             Call_allocate_invoke]\<rparr>) \<and>
   custom_invoke ex_dl (ex_opened ''alloc.so'' mod_alloc) 1 200 = Inl (AssertFailed 147)"
  using C5_allocate_invoke_size_check
      [of "ex_opened ''alloc.so'' mod_alloc" "ex_loaded ''alloc.so'' mod_alloc" mod_alloc
          ex_allocate_invoke 100 8192 921600 1 ex_dl 200]
    C5_allocate_invoke_size_check
      [of "ex_opened ''alloc.so'' mod_alloc" "ex_loaded ''alloc.so'' mod_alloc" mod_alloc
          ex_allocate_invoke 1 8192 921599 1 ex_dl 200]
  by (simp add: ex_opened_def fresh_def ex_loaded_def mod_alloc_def ex_allocate_invoke_def
      ex_tensors_def spec_byte_size_def)

text \<open>
  Claim C5 as stated fails: the first output tensor has \<open>2 ^ 64\<close> bytes, the module
  reports 0 bytes, which differs, and \<^verbatim>\<open>custom_invoke\<close> returns the module's buffer.
\<close>

theorem C5_wrapped_size_accepted:
  "spec_byte_size (info ex_huge_tensors ! 0) = 2 ^ 64 \<and>
   fst (snd (ex_allocate_invoke_empty 4096
     (props (set_output_meta ex_huge_tensors (ex_opened ''allocempty.so'' mod_alloc_empty)))
     100 1)) = 0 \<and>
   custom_invoke ex_dl
     (set_output_meta ex_huge_tensors (ex_opened ''allocempty.so'' mod_alloc_empty)) 100 200 =
   Inr (8192, (set_output_meta ex_huge_tensors (ex_opened ''allocempty.so'' mod_alloc_empty))
                \<lparr>trace := [G_new0, Dlopen ''allocempty.so'', Call_initfunc,
                           Call_allocate_invoke]\<rparr>)"
  by (simp add: custom_invoke_def custom_loadlib_def spec_byte_size_def ex_defs Let_def)

text \<open>
  Claim C6. On an open handle whose table has \<^verbatim>\<open>invoke\<close>, \<^verbatim>\<open>custom_invoke\<close> calls it once
  and returns the caller's output pointer when the status is 0, and the null pointer
  for every other status.
\<close>

theorem C6_invoke_status:
  assumes "privateData s = Some ptr"
    and "methods ptr = Some m"
    and "invoke m = Some f"
    and "f (customFW_private_data ptr) (props s) inptr outptr (world s) = (status, w')"
  shows "custom_invoke dl s inptr outptr =
    Inr (if status = 0 then outptr else NULL,
         s\<lparr>world := w', trace := trace s @ [Call_invoke]\<rparr>)"
  using assms by (simp add: custom_invoke_def custom_loadlib_skip)

theorem C6_invoke_status_witness:
  "custom_invoke ex_dl (ex_opened ''dynamic.so'' mod_dynamic) 100 200 =
     Inr (200, (ex_opened ''dynamic.so'' mod_dynamic)
                 \<lparr>trace := [G_new0, Dlopen ''dynamic.so'', Call_initfunc, Call_invoke]\<rparr>) \<and>
   custom_invoke ex_dl (ex_opened ''dynamic.so'' mod_dynamic) NULL 200 =
     Inr (NULL, (ex_opened ''dynamic.so'' mod_dynamic)
                  \<lparr>trace := [G_new0, Dlopen ''dynamic.so'', Call_initfunc, Call_invoke]\<rparr>)"
  using C6_invoke_status
      [of "ex_opened ''dynamic.so'' mod_dynamic" "ex_loaded ''dynamic.so'' mod_dynamic"
          mod_dynamic ex_invoke 100 200 0 1 ex_dl]
    C6_invoke_status
      [of "ex_opened ''dynamic.so'' mod_dynamic" "ex_loaded ''dynamic.so'' mod_dynamic"
          mod_dynamic ex_invoke NULL 200 "- 1" 1 ex_dl]
  by (simp add: ex_opened_def fresh_def ex_loaded_def mod_dynamic_def ex_invoke_def NULL_def)

text \<open>
  Claim C7 fails on the code. After \<^verbatim>\<open>custom_open\<close>, and with no call of
  \<^verbatim>\<open>custom_getInputDim\<close>, \<^verbatim>\<open>custom_getOutputDim\<close> or \<^verbatim>\<open>custom_setInputDim\<close>,
  \<^verbatim>\<open>custom_invoke\<close> calls the module's \<^verbatim>\<open>invoke\<close> and returns the output pointer: the
  assertion of line 132 holds as soon as the filter is open.
\<close>

theorem C7_invoke_without_negotiation:
  "and_then (custom_open ex_dl (fresh ''dynamic.so'')) (\<lambda>s. custom_invoke ex_dl s 100 200) =
   Inr (200, (ex_opened ''dynamic.so'' mod_dynamic)
               \<lparr>trace := [G_new0, Dlopen ''dynamic.so'', Call_initfunc, Call_invoke]\<rparr>)"
  by (simp add: custom_open_def custom_invoke_def custom_loadlib_def ex_defs Let_def)

text \<open>
  What \<^verbatim>\<open>custom_close\<close> does on an open handle whose table has \<^verbatim>\<open>exitfunc\<close>: it calls
  \<^verbatim>\<open>exitfunc\<close> on the stored private data with the filter's properties, frees the
  record and sets \<^verbatim>\<open>privateData\<close> to null. These are its only calls.
\<close>

theorem close_effect:
  assumes "privateData s = Some ptr"
    and "methods ptr = Some m"
    and "exitfunc m = Some ex"
  shows "custom_close s =
    Inr (s\<lparr>world := ex (customFW_private_data ptr) (props s) (world s),
           privateData := None,
           trace := trace s @ [Call_exitfunc, G_free]\<rparr>)"
  using assms by (simp add: custom_close_def Let_def)

theorem close_effect_witness:
  "custom_close (ex_opened ''static.so'' mod_static) =
   Inr ((fresh ''static.so'')
         \<lparr>trace := [G_new0, Dlopen ''static.so'', Call_initfunc, Call_exitfunc, G_free]\<rparr>)"
  using close_effect
    [of "ex_opened ''static.so'' mod_static" "ex_loaded ''static.so'' mod_static"
        mod_static ex_exit]
  by (simp add: ex_defs)

text \<open>
  Claim C8 fails on the code. \<^verbatim>\<open>custom_open\<close> followed by \<^verbatim>\<open>custom_close\<close> calls
  \<^verbatim>\<open>dlopen\<close>, \<^verbatim>\<open>initfunc\<close>, \<^verbatim>\<open>exitfunc\<close> and \<^verbatim>\<open>g_free\<close>, and never \<^verbatim>\<open>dlclose\<close>: the library
  stays loaded. (The loader's own error path, line 83, does call \<^verbatim>\<open>dlclose\<close>.)
\<close>

theorem C8_close_leaves_library_loaded:
  "and_then (custom_open ex_dl (fresh ''dynamic.so'')) custom_close =
   Inr ((fresh ''dynamic.so'')
         \<lparr>trace := [G_new0, Dlopen ''dynamic.so'', Call_initfunc, Call_exitfunc, G_free]\<rparr>)"
  by (simp add: custom_open_def custom_loadlib_def custom_close_def ex_defs Let_def)

section \<open>Properties of the scaler\<close>

text \<open>The loop of lines 121-122 makes four assignments.\<close>

lemma copy_dimension_unroll:
  "copy_dimension 0 in_info out_info =
     set_info0_dimension (set_info0_dimension (set_info0_dimension
       (set_info0_dimension out_info 0 (dimension (info in_info ! 0) ! 0))
         1 (dimension (info in_info ! 0) ! 1))
         2 (dimension (info in_info ! 0) ! 2))
         3 (dimension (info in_info ! 0) ! 3)"
proof -
  have 4: "copy_dimension 4 in_info out = out" for out
    by (subst copy_dimension.simps) (simp add: NNS_TENSOR_RANK_LIMIT_def)
  have 3: "copy_dimension 3 in_info out =
      set_info0_dimension out 3 (dimension (info in_info ! 0) ! 3)" for out
    by (subst copy_dimension.simps) (simp add: NNS_TENSOR_RANK_LIMIT_def 4 del: One_nat_def)
  have 2: "copy_dimension 2 in_info out =
      set_info0_dimension (set_info0_dimension out 2 (dimension (info in_info ! 0) ! 2))
         3 (dimension (info in_info ! 0) ! 3)" for out
    by (subst copy_dimension.simps) (simp add: NNS_TENSOR_RANK_LIMIT_def 3 del: One_nat_def)
  have 1: "copy_dimension 1 in_info out =
      set_info0_dimension (set_info0_dimension (set_info0_dimension out
         1 (dimension (info in_info ! 0) ! 1))
         2 (dimension (info in_info ! 0) ! 2))
         3 (dimension (info in_info ! 0) ! 3)" for out
    by (subst copy_dimension.simps) (simp add: NNS_TENSOR_RANK_LIMIT_def 2 del: One_nat_def)
  show ?thesis
    by (subst copy_dimension.simps) (simp add: NNS_TENSOR_RANK_LIMIT_def 1 del: One_nat_def)
qed

lemma copy_dimension_all:
  assumes "info out_info \<noteq> []"
    and "length (dimension (info in_info ! 0)) = NNS_TENSOR_RANK_LIMIT"
    and "length (dimension (info out_info ! 0)) = NNS_TENSOR_RANK_LIMIT"
  shows "copy_dimension 0 in_info out_info =
    out_info\<lparr>info := (info out_info)[0 := (info out_info ! 0)\<lparr>dimension := dimension (info in_info ! 0)\<rparr>]\<rparr>"
proof -
  obtain a b c d where src: "dimension (info in_info ! 0) = [a, b, c, d]"
    using assms(2) by (auto simp: NNS_TENSOR_RANK_LIMIT_def numeral_eq_Suc length_Suc_conv)
  obtain a' b' c' d' where dst: "dimension (info out_info ! 0) = [a', b', c', d']"
    using assms(3) by (auto simp: NNS_TENSOR_RANK_LIMIT_def numeral_eq_Suc length_Suc_conv)
  obtain t ts where inf: "info out_info = t # ts"
    using assms(1) by (cases "info out_info") auto
  show ?thesis
    unfolding copy_dimension_unroll set_info0_dimension_def
    using src dst inf by (simp add: numeral_2_eq_2 numeral_3_eq_3)
qed

text \<open>
  Claim C9. For input and output descriptors whose first tensor has
  \<^verbatim>\<open>NNS_TENSOR_RANK_LIMIT\<close> dimension entries, \<^verbatim>\<open>set_inputDim\<close> returns 0 and leaves a
  descriptor of one tensor whose dimensions are the input's, with entry 1 replaced by
  \<^verbatim>\<open>new_x\<close> when \<^verbatim>\<open>new_x > 0\<close> and entry 2 by \<^verbatim>\<open>new_y\<close> when \<^verbatim>\<open>new_y > 0\<close>, and whose
  element type is the input's. With 320x240 configured, [3,640,480,1] of uint8 gives
  [3,320,240,1] of uint8 (the witness).
\<close>

theorem C9_scaler_set_inputDim:
  assumes "info in_info \<noteq> []"
    and "length (dimension (info in_info ! 0)) = NNS_TENSOR_RANK_LIMIT"
    and "info out_info \<noteq> []"
    and "length (dimension (info out_info ! 0)) = NNS_TENSOR_RANK_LIMIT"
  shows "\<exists>out. set_inputDim (Some data) p (Some in_info) (Some out_info) = Inr (0, out) \<and>
            num_tensors out = 1 \<and>
            dimension (info out ! 0) =
              (let d = dimension (info in_info ! 0);
                   d1 = (if 0 < new_x data then d[1 := new_x data] else d)
               in if 0 < new_y data then d1[2 := new_y data] else d1) \<and>
            type (info out ! 0) = type (info in_info ! 0)"
proof -
  obtain t ts where inf: "info out_info = t # ts"
    using assms(3) by (cases "info out_info") auto
  have cp: "copy_dimension 0 in_info (out_info\<lparr>num_tensors := 1\<rparr>) =
    out_info\<lparr>num_tensors := 1,
      info := (info out_info)[0 := (info out_info ! 0)\<lparr>dimension := dimension (info in_info ! 0)\<rparr>]\<rparr>"
    using copy_dimension_all [of "out_info\<lparr>num_tensors := 1\<rparr>" in_info] assms by simp
  show ?thesis
    by (simp add: set_inputDim_def Let_def cp set_info0_dimension_def inf)
qed

theorem C9_scaler_set_inputDim_witness:
  "\<exists>out. set_inputDim (Some ex_pt_data) ex_props (Some ex_tensors) (Some ex_out_info) =
           Inr (0, out) \<and>
         num_tensors out = 1 \<and> dimension (info out ! 0) = [3, 320, 240, 1] \<and>
         type (info out ! 0) = NNS_UINT8"
  using C9_scaler_set_inputDim [of ex_tensors ex_out_info ex_pt_data ex_props]
  by (simp add: ex_tensors_def ex_out_info_def ex_pt_data_def NNS_TENSOR_RANK_LIMIT_def)

end
